theory Spec2Isabelle
  imports Complex_Main "HOL-Library.Word" "HOL-Library.Sublist"
begin

section \<open>JavaScript strings\<close>

text \<open>
  A JavaScript string is a sequence of UTF-16 code units. String literals of the source are
  written through \<open>js\<close>; the two accented letters of the difficulty names are given by their
  code units (U+00E1 and U+00ED).
\<close>

type_synonym js_string = "16 word list"

definition js :: "string \<Rightarrow> js_string" where
  "js s = map of_char s"

definition facil :: js_string where
  "facil = [0x66, 0xE1, 0x63, 0x69, 0x6C]"

definition medio :: js_string where
  "medio = js ''medio''"

definition dificil :: js_string where
  "dificil = [0x64, 0x69, 0x66, 0xED, 0x63, 0x69, 0x6C]"

section \<open>Numbers\<close>

text \<open>
  A number of the source is an IEEE 754 double. A double is held here as the real number it
  denotes, and a number that the program reads (a numeric literal of the source, a number
  of a JSON body, the exact result of an arithmetic operation) becomes a double through
  \<open>to_double\<close>: round to nearest, ties to even, on 53 bits, with gradual underflow at the
  exponent -1022. A magnitude from \<open>2^1024 - 2^970\<close> on rounds to an infinity: only a number
  of a request body can be that large, the handlers only compare it, and \<open>2^1024\<close>, above
  every double, stands for it. Comparisons of doubles are exact. Counts (array lengths,
  tallies, sums of weights) are integers far below \<open>2^53\<close> and are doubles as they are.
\<close>

definition round_half_even :: "real \<Rightarrow> int" where
  "round_half_even y =
     (let f = \<lfloor>y\<rfloor>; d = y - of_int f
      in if d < 1 / 2 then f else if 1 / 2 < d then f + 1 else if even f then f else f + 1)"

text \<open>
  The binary exponent of a positive number, not below -1022: \<open>x\<close> is halved or doubled into
  \<open>[1, 2)\<close>, at most \<open>n\<close> times.
\<close>

fun find_exponent :: "nat \<Rightarrow> real \<Rightarrow> int \<Rightarrow> int" where
  "find_exponent n x e =
     (if n = 0 then e
      else if 2 \<le> x then find_exponent (n - 1) (x / 2) (e + 1)
      else if x < 1 \<and> - 1022 < e then find_exponent (n - 1) (x * 2) (e - 1)
      else e)"

declare find_exponent.simps [simp del]

text \<open>The distance between neighbouring doubles of exponent \<open>e\<close>.\<close>

definition quantum :: "int \<Rightarrow> real" where
  "quantum e = (if 52 \<le> e then 2 ^ nat (e - 52) else 1 / 2 ^ nat (52 - e))"

definition to_double :: "real \<Rightarrow> real" where
  "to_double x =
     (if x = 0 then 0
      else if 2 ^ 1024 - 2 ^ 970 \<le> \<bar>x\<bar> then sgn x * 2 ^ 1024
      else let q = quantum (find_exponent 2100 \<bar>x\<bar> 0)
           in sgn x * (of_int (round_half_even (\<bar>x\<bar> / q)) * q))"

section \<open>JSON values\<close>

text \<open>A value that \<open>JSON.parse\<close> returns; \<open>JNum\<close> holds the double.\<close>

datatype json =
    JNull
  | JBool bool
  | JNum real
  | JStr js_string
  | JArr "json list"
  | JObj "(js_string \<times> json) list"

section \<open>Adaptive difficulty (POST /api/adaptive/generate)\<close>

text \<open>
  The \<open>performance\<close> object of the request body, as sent: \<open>accuracy\<close> is the number written in
  the body, which the body parser turns into a double; \<open>streak\<close> is an integer, which as a
  double keeps its sign, its order relative to 3 and 0, and is 0 only when sent as 0.
\<close>

record PerformanceSignal =
  accuracy :: "real option"
  streak :: "int option"

text \<open>
  \<open>x || d\<close> for a number-or-undefined \<open>x\<close>: \<open>undefined\<close> and \<open>0\<close> are falsy (and \<open>NaN\<close>,
  which no JSON body holds).
\<close>

definition or_num :: "real option \<Rightarrow> real \<Rightarrow> real" where
  "or_num x d = (case x of None \<Rightarrow> d | Some v \<Rightarrow> if v = 0 then d else v)"

definition or_int :: "int option \<Rightarrow> int \<Rightarrow> int" where
  "or_int x d = (case x of None \<Rightarrow> d | Some v \<Rightarrow> if v = 0 then d else v)"

text \<open>\<open>performance?.accuracy || 0.5\<close> and \<open>performance?.streak || 0\<close>.\<close>

definition avgAccuracy :: "PerformanceSignal option \<Rightarrow> real" where
  "avgAccuracy performance =
     or_num (case performance of None \<Rightarrow> None | Some p \<Rightarrow> map_option to_double (accuracy p))
       (to_double 0.5)"

definition streak_used :: "PerformanceSignal option \<Rightarrow> int" where
  "streak_used performance =
     or_int (case performance of None \<Rightarrow> None | Some p \<Rightarrow> streak p) 0"

definition targetDifficulty :: "PerformanceSignal option \<Rightarrow> js_string" where
  "targetDifficulty performance =
     (if avgAccuracy performance > to_double 0.8 \<and> streak_used performance \<ge> 3 then dificil
      else if avgAccuracy performance < to_double 0.5 \<or> streak_used performance < 0 then facil
      else medio)"

definition reason_alto :: js_string where
  "reason_alto = js ''Alto rendimiento - aumentando dificultad''"

definition reason_bajo :: js_string where
  "reason_bajo = js ''Bajo rendimiento - reduciendo dificultad''"

definition reason_estable :: js_string where
  "reason_estable = js ''Rendimiento estable - manteniendo nivel''"

definition adaptiveReason :: "PerformanceSignal option \<Rightarrow> js_string" where
  "adaptiveReason performance =
     (if avgAccuracy performance > to_double 0.8 then reason_alto
      else if avgAccuracy performance < to_double 0.5 then reason_bajo
      else reason_estable)"

text \<open>
  The estimator as the specification words it: the fields of the signal themselves (the
  accuracy as the double it is), with the defaults only for absent fields.
\<close>

definition spec_accuracy :: "PerformanceSignal option \<Rightarrow> real" where
  "spec_accuracy performance =
     (case performance of None \<Rightarrow> to_double 0.5
      | Some p \<Rightarrow> (case accuracy p of None \<Rightarrow> to_double 0.5 | Some a \<Rightarrow> to_double a))"

definition spec_streak :: "PerformanceSignal option \<Rightarrow> int" where
  "spec_streak performance =
     (case performance of None \<Rightarrow> 0
      | Some p \<Rightarrow> (case streak p of None \<Rightarrow> 0 | Some k \<Rightarrow> k))"

definition spec_estimator :: "PerformanceSignal option \<Rightarrow> js_string" where
  "spec_estimator performance =
     (if spec_accuracy performance > to_double 0.8 \<and> spec_streak performance \<ge> 3 then dificil
      else if spec_accuracy performance < to_double 0.5 \<or> spec_streak performance < 0
      then facil
      else medio)"

text \<open>The rationale the specification asks for: the one that goes with the target difficulty.\<close>

definition spec_reason :: "PerformanceSignal option \<Rightarrow> js_string" where
  "spec_reason performance =
     (if targetDifficulty performance = dificil then reason_alto
      else if targetDifficulty performance = facil then reason_bajo
      else reason_estable)"

section \<open>Recent topics (POST /api/adaptive/generate)\<close>

record QuestionRecord =
  topic :: "js_string option"
  difficulty :: "js_string option"
  correct :: bool

text \<open>\<open>Boolean\<close> on a string-or-undefined value: \<open>undefined\<close> and the empty string are falsy.\<close>

definition truthy_str :: "js_string option \<Rightarrow> bool" where
  "truthy_str x = (case x of None \<Rightarrow> False | Some s \<Rightarrow> s \<noteq> [])"

text \<open>\<open>Array.prototype.slice(-n)\<close>: the last \<open>n\<close> elements, all of them when there are fewer.\<close>

definition slice_last :: "nat \<Rightarrow> 'a list \<Rightarrow> 'a list" where
  "slice_last n xs = drop (length xs - n) xs"

fun join :: "js_string \<Rightarrow> js_string list \<Rightarrow> js_string" where
  "join sep [] = []"
| "join sep [x] = x"
| "join sep (x # y # ys) = x @ sep @ join sep (y # ys)"

definition recentTopics :: "QuestionRecord list option \<Rightarrow> js_string" where
  "recentTopics questionHistory =
     (case questionHistory of
        None \<Rightarrow> []
      | Some h \<Rightarrow>
          join (js '', '') (map the (filter truthy_str (map topic (slice_last 5 h)))))"

text \<open>
  The filter as the specification claim words it: the topics of the last five topic-bearing
  records.
\<close>

definition spec_recentTopics :: "QuestionRecord list option \<Rightarrow> js_string" where
  "spec_recentTopics questionHistory =
     (case questionHistory of
        None \<Rightarrow> []
      | Some h \<Rightarrow>
          join (js '', '')
            (map (\<lambda>q. the (topic q)) (slice_last 5 (filter (\<lambda>q. truthy_str (topic q)) h))))"

section \<open>Stripping the code fence (POST /api/adaptive/generate)\<close>

text \<open>The code units that \<open>String.prototype.trim\<close> removes: white space and line terminators.\<close>

definition is_space :: "16 word \<Rightarrow> bool" where
  "is_space c =
     (c \<in> set [0x09, 0x0A, 0x0B, 0x0C, 0x0D, 0x20, 0xA0, 0x1680, 0x2028, 0x2029, 0x202F,
                0x205F, 0x3000, 0xFEFF]
      \<or> (0x2000 \<le> c \<and> c \<le> 0x200A))"

definition trimStart :: "js_string \<Rightarrow> js_string" where
  "trimStart s = dropWhile is_space s"

definition trimEnd :: "js_string \<Rightarrow> js_string" where
  "trimEnd s = rev (dropWhile is_space (rev s))"

definition trim :: "js_string \<Rightarrow> js_string" where
  "trim s = trimStart (trimEnd s)"

text \<open>Three backticks, and three backticks followed by \<open>json\<close>.\<close>

definition fence :: js_string where
  "fence = [0x60, 0x60, 0x60]"

definition fence_json :: js_string where
  "fence_json = fence @ js ''json''"

text \<open>The optional \<open>\n\<close> that ends both patterns (greedy: taken when present).\<close>

definition skip_newline :: "js_string \<Rightarrow> js_string" where
  "skip_newline s = (case s of [] \<Rightarrow> [] | c # cs \<Rightarrow> if c = 0x0A then cs else c # cs)"

text \<open>
  \<open>s.replace(/m\n?/g, '')\<close> for a literal \<open>m\<close>: scanning from the left, every match is
  dropped and the scan goes on behind it. Both patterns of the source are non-empty.
\<close>

function remove_matches :: "js_string \<Rightarrow> js_string \<Rightarrow> js_string" where
  "remove_matches m [] = []"
| "remove_matches m (c # cs) =
     (if m \<noteq> [] \<and> take (length m) (c # cs) = m
      then remove_matches m (skip_newline (drop (length m) (c # cs)))
      else c # remove_matches m cs)"
  by pat_completeness auto
termination
proof (relation "measure (\<lambda>(m, s). length s)")
  fix m :: js_string and c cs
  assume "m \<noteq> [] \<and> take (length m) (c # cs) = m"
  then have "length (drop (length m) (c # cs)) < length (c # cs)"
    by (cases m) auto
  moreover have "length (skip_newline t) \<le> length t" for t
    by (simp add: skip_newline_def split: list.splits)
  ultimately show "((m, skip_newline (drop (length m) (c # cs))), (m, c # cs))
      \<in> measure (\<lambda>(m, s). length s)"
    by (smt (verit) case_prod_conv in_measure le_less_trans)
qed auto

text \<open>\<open>aiContent.replace(/```json\n?/g, '').replace(/```\n?/g, '').trim()\<close>\<close>

definition strip_fences :: "js_string \<Rightarrow> js_string" where
  "strip_fences s = trim (remove_matches fence (remove_matches fence_json s))"

section \<open>Validating the parsed question (POST /api/adaptive/generate)\<close>

text \<open>JavaScript truthiness of a JSON value.\<close>

fun truthy :: "json \<Rightarrow> bool" where
  "truthy JNull = False"
| "truthy (JBool b) = b"
| "truthy (JNum x) = (x \<noteq> 0)"
| "truthy (JStr s) = (s \<noteq> [])"
| "truthy (JArr xs) = True"
| "truthy (JObj kvs) = True"

text \<open>
  Reading \<open>question\<close>, \<open>options\<close> or \<open>correctIndex\<close> from a parsed value other than
  \<open>null\<close>: an object gives its entry (the last one when \<open>JSON.parse\<close> met the key twice), every
  other value gives \<open>undefined\<close> (\<open>None\<close>), since no built-in prototype has these names.
\<close>

fun get_field :: "json \<Rightarrow> js_string \<Rightarrow> json option" where
  "get_field (JObj kvs) k = map_of (rev kvs) k"
| "get_field v k = None"

definition truthy_opt :: "json option \<Rightarrow> bool" where
  "truthy_opt x = (case x of None \<Rightarrow> False | Some v \<Rightarrow> truthy v)"

definition isArray :: "json option \<Rightarrow> bool" where
  "isArray x = (case x of Some (JArr xs) \<Rightarrow> True | _ \<Rightarrow> False)"

text \<open>
  The field check of the handler; \<open>False\<close> is a throw inside the \<open>try\<close>: reading a property of
  \<open>null\<close> raises a TypeError, a failed check raises the handler's own error.
\<close>

definition valid_question :: "json \<Rightarrow> bool" where
  "valid_question questionData =
     (case questionData of
        JNull \<Rightarrow> False
      | _ \<Rightarrow>
          \<not> (\<not> truthy_opt (get_field questionData (js ''question''))
             \<or> \<not> isArray (get_field questionData (js ''options''))
             \<or> get_field questionData (js ''correctIndex'') = None))"

text \<open>
  The \<open>try\<close> block: strip, parse, check. \<open>JSON.parse\<close> is a parameter (\<open>None\<close> where it raises
  a SyntaxError); \<open>None\<close> is the \<open>catch\<close> branch.
\<close>

definition parse_question :: "(js_string \<Rightarrow> json option) \<Rightarrow> js_string \<Rightarrow> json option" where
  "parse_question JSON_parse aiContent =
     (case JSON_parse (strip_fences aiContent) of
        None \<Rightarrow> None
      | Some questionData \<Rightarrow> if valid_question questionData then Some questionData else None)"

text \<open>
  The schema of the specification: a non-empty \<open>question\<close> string, \<open>options\<close> a sequence of
  exactly four strings, \<open>correctIndex\<close> an integer from 0 to 3.
\<close>

definition is_string :: "json \<Rightarrow> bool" where
  "is_string v = (case v of JStr s \<Rightarrow> True | _ \<Rightarrow> False)"

definition spec_schema :: "json \<Rightarrow> bool" where
  "spec_schema questionData =
     ((case get_field questionData (js ''question'') of
         Some (JStr s) \<Rightarrow> s \<noteq> [] | _ \<Rightarrow> False)
      \<and> (case get_field questionData (js ''options'') of
         Some (JArr xs) \<Rightarrow> length xs = 4 \<and> list_all is_string xs | _ \<Rightarrow> False)
      \<and> (case get_field questionData (js ''correctIndex'') of
         Some (JNum x) \<Rightarrow> x \<in> {0, 1, 2, 3} | _ \<Rightarrow> False))"

section \<open>The generate handler\<close>

record environment =
  OPENROUTER_API_KEY :: "js_string option"
  OPENAI_API_KEY :: "js_string option"
  NODE_ENV :: "js_string option"

text \<open>A thrown \<open>Error\<close>: its name and message. \<open>Error.prototype.toString\<close> joins them.\<close>

record js_error =
  name :: js_string
  message :: js_string

definition new_Error :: "js_string \<Rightarrow> js_error" where
  "new_Error msg = \<lparr>name = js ''Error'', message = msg\<rparr>"

definition error_toString :: "js_error \<Rightarrow> js_string" where
  "error_toString e =
     (if name e = [] then message e
      else if message e = [] then name e
      else name e @ js '': '' @ message e)"

datatype log_line = Log "js_string list" | LogError "js_string list"

record http_response =
  status :: nat
  body :: json

text \<open>
  What the call to the completion provider comes to: \<open>fetch\<close> rejects; the response is not
  \<open>ok\<close> (status text and body text); reading \<open>data.choices[0].message.content\<close> raises; or the
  content string arrives, with \<open>data.usage\<close>.
\<close>

datatype completion =
    FetchFails js_error
  | NotOk js_string js_string
  | BodyFails js_error
  | Content js_string "json option"

text \<open>The outer \<open>catch\<close> of the handler.\<close>

definition generation_error :: "environment \<Rightarrow> js_error \<Rightarrow> http_response" where
  "generation_error env error =
     \<lparr>status = 500,
      body = JObj ([(js ''success'', JBool False),
                    (js ''error'', JStr (if message error = []
                                         then js ''Error generating adaptive content''
                                         else message error))]
                   @ (if NODE_ENV env = Some (js ''development'')
                      then [(js ''details'', JStr (error_toString error))] else []))\<rparr>"

text \<open>
  The handler, from the request fields to the response and the console lines. The prompt
  goes to the provider only, and the provider's answer is the parameter \<open>outcome\<close>; \<open>now\<close> is
  the clock reading of the success response.
\<close>

definition generate ::
  "environment \<Rightarrow> js_string \<Rightarrow> (js_string \<Rightarrow> json option) \<Rightarrow> completion \<Rightarrow>
   js_string option \<Rightarrow> js_string option \<Rightarrow> PerformanceSignal option \<Rightarrow>
   QuestionRecord list option \<Rightarrow> http_response \<times> log_line list" where
  "generate env now JSON_parse outcome level subject performance questionHistory =
     (if \<not> truthy_str level \<or> \<not> truthy_str subject then
        (\<lparr>status = 400,
          body = JObj [(js ''success'', JBool False),
                       (js ''error'', JStr (js ''Missing required fields: level and subject''))]\<rparr>,
         [])
      else if \<not> truthy_str (OPENROUTER_API_KEY env) then
        (\<lparr>status = 500,
          body = JObj [(js ''success'', JBool False),
                       (js ''error'', JStr (js (''API key not configured. Please set ''
                          @ ''OPENROUTER_API_KEY environment variable.'')))]\<rparr>,
         [LogError [js ''ERROR: OPENROUTER_API_KEY not configured'']])
      else
        let started = Log [js ''Generating question for '' @ the level @ js '' - '' @ the subject
                           @ js '' (difficulty: '' @ targetDifficulty performance @ js '')'']
        in case outcome of
          FetchFails e \<Rightarrow>
            (generation_error env e,
             [started, LogError [js ''Adaptive generation error:'', error_toString e]])
        | NotOk statusText errorText \<Rightarrow>
            (let e = new_Error (js ''OpenRouter API failed: '' @ statusText)
             in (generation_error env e,
                 [started, LogError [js ''OpenRouter API error:'', errorText],
                  LogError [js ''Adaptive generation error:'', error_toString e]]))
        | BodyFails e \<Rightarrow>
            (generation_error env e,
             [started, LogError [js ''Adaptive generation error:'', error_toString e]])
        | Content content usage \<Rightarrow>
            (let aiContent = trim content
             in case parse_question JSON_parse aiContent of
               None \<Rightarrow>
                 (let e = new_Error (js ''AI generated invalid response format'')
                  in (generation_error env e,
                      [started, LogError [js ''Failed to parse AI response:'', aiContent],
                       LogError [js ''Adaptive generation error:'', error_toString e]]))
             | Some questionData \<Rightarrow>
                 (\<lparr>status = 200,
                   body = JObj
                     [(js ''success'', JBool True),
                      (js ''question'', questionData),
                      (js ''metadata'', JObj
                         [(js ''aiModel'', JStr (js ''claude-3.5-sonnet'')),
                          (js ''targetDifficulty'', JStr (targetDifficulty performance)),
                          (js ''adaptiveReason'', JStr (adaptiveReason performance)),
                          (js ''timestamp'', JStr now),
                          (js ''usageTokens'',
                             (if truthy_opt usage then the usage else JObj []))])]\<rparr>,
                  [started])))"

section \<open>Analytics (POST /api/adaptive/analytics)\<close>

text \<open>The numeric weight of a record's difficulty (the \<open>switch\<close>).\<close>

definition difficulty_weight :: "QuestionRecord \<Rightarrow> nat" where
  "difficulty_weight q =
     (if difficulty q = Some facil then 1
      else if difficulty q = Some medio then 2
      else if difficulty q = Some dificil then 3
      else 2)"

text \<open>The entries \<open>{ correct, total }\<close> of \<open>byDifficulty\<close>.\<close>

record counts =
  n_correct :: nat
  n_total :: nat

type_synonym tally = "js_string \<rightharpoonup> counts"

text \<open>The own keys of \<open>byDifficulty\<close>, in the order of the literal.\<close>

definition tiers :: "js_string list" where
  "tiers = [facil, medio, dificil]"

definition byDifficulty_init :: tally where
  "byDifficulty_init =
     [facil \<mapsto> \<lparr>n_correct = 0, n_total = 0\<rparr>,
      medio \<mapsto> \<lparr>n_correct = 0, n_total = 0\<rparr>,
      dificil \<mapsto> \<lparr>n_correct = 0, n_total = 0\<rparr>]"

text \<open>
  \<open>byDifficulty\<close> is a plain object, so a key that it does not own is looked up in
  \<open>Object.prototype\<close>. These are the names the prototype has from the start; each gives an
  object or a function, on which \<open>.total++\<close> and \<open>.correct++\<close> raise nothing and leave
  \<open>byDifficulty\<close> as it is.
\<close>

definition object_prototype_keys :: "js_string list" where
  "object_prototype_keys =
     map js [''constructor'', ''__defineGetter__'', ''__defineSetter__'', ''hasOwnProperty'',
       ''__lookupGetter__'', ''__lookupSetter__'', ''isPrototypeOf'', ''propertyIsEnumerable'',
       ''toString'', ''valueOf'', ''__proto__'', ''toLocaleString'']"

text \<open>\<open>q.difficulty || 'medio'\<close>\<close>

definition tier_of :: "QuestionRecord \<Rightarrow> js_string" where
  "tier_of q = (case difficulty q of None \<Rightarrow> medio | Some d \<Rightarrow> if d = [] then medio else d)"

definition undefined_total :: js_error where
  "undefined_total =
     \<lparr>name = js ''TypeError'',
      message = js ''Cannot read properties of undefined (reading 'total')''\<rparr>"

text \<open>
  The key \<open>__proto__\<close> gives \<open>Object.prototype\<close> itself, so \<open>.total++\<close> (and \<open>.correct++\<close> for a
  correct record) creates the property \<open>total\<close> (\<open>correct\<close>) there, with the value \<open>NaN\<close>, for
  the rest of the process. From then on the key \<open>total\<close> (\<open>correct\<close>) is found, as a number;
  the module is not in strict mode, where \<open>++\<close> on a property of a number raises nothing and
  writes nothing. The state of the process that the handler can change is which of the two
  properties exist.
\<close>

record prototype_state =
  has_total :: bool
  has_correct :: bool

definition fresh_prototype :: prototype_state where
  "fresh_prototype = \<lparr>has_total = False, has_correct = False\<rparr>"

text \<open>
  One round of the \<open>forEach\<close>: for any other key \<open>byDifficulty[diff]\<close> is \<open>undefined\<close> and
  reading its \<open>total\<close> raises a TypeError.
\<close>

definition tally_step ::
  "prototype_state \<Rightarrow> tally \<Rightarrow> QuestionRecord \<Rightarrow> js_error + prototype_state \<times> tally" where
  "tally_step ps t q =
     (case t (tier_of q) of
        Some stats \<Rightarrow>
          Inr (ps, t(tier_of q \<mapsto>
                 \<lparr>n_correct = (if correct q then n_correct stats + 1 else n_correct stats),
                  n_total = n_total stats + 1\<rparr>))
      | None \<Rightarrow>
          if tier_of q = js ''__proto__''
          then Inr (\<lparr>has_total = True, has_correct = (has_correct ps \<or> correct q)\<rparr>, t)
          else if tier_of q \<in> set object_prototype_keys
                  \<or> (tier_of q = js ''total'' \<and> has_total ps)
                  \<or> (tier_of q = js ''correct'' \<and> has_correct ps)
          then Inr (ps, t)
          else Inl undefined_total)"

text \<open>The \<open>forEach\<close>; what it wrote to the prototype stays when a round raises.\<close>

fun tally_all ::
  "prototype_state \<Rightarrow> tally \<Rightarrow> QuestionRecord list \<Rightarrow> prototype_state \<times> (js_error + tally)" where
  "tally_all ps t [] = (ps, Inr t)"
| "tally_all ps t (q # qs) =
     (case tally_step ps t q of
        Inl e \<Rightarrow> (ps, Inl e)
      | Inr (ps', t') \<Rightarrow> tally_all ps' t' qs)"

text \<open>\<open>Math.round\<close> of a double: the nearest integer, a tie going up.\<close>

definition Math_round :: "real \<Rightarrow> int" where
  "Math_round x = \<lfloor>x + 1 / 2\<rfloor>"

text \<open>\<open>(stats.correct / stats.total) * 100\<close>: a division and a multiplication of doubles.\<close>

definition acc_of :: "counts \<Rightarrow> real" where
  "acc_of stats = to_double (to_double (real (n_correct stats) / real (n_total stats)) * 100)"

record area =
  level :: js_string
  accuracy_rounded :: int

definition strengthAreas_of :: "tally \<Rightarrow> area list" where
  "strengthAreas_of t =
     concat (map (\<lambda>diff. case t diff of
                None \<Rightarrow> []
              | Some stats \<Rightarrow>
                  if n_total stats > 0 \<and> acc_of stats \<ge> 75
                  then [\<lparr>level = diff, accuracy_rounded = Math_round (acc_of stats)\<rparr>]
                  else []) tiers)"

definition improvementAreas_of :: "tally \<Rightarrow> area list" where
  "improvementAreas_of t =
     concat (map (\<lambda>diff. case t diff of
                None \<Rightarrow> []
              | Some stats \<Rightarrow>
                  if n_total stats > 0 \<and> acc_of stats < 50
                  then [\<lparr>level = diff, accuracy_rounded = Math_round (acc_of stats)\<rparr>]
                  else []) tiers)"

record curve_point =
  question :: nat
  correct01 :: nat
  point_difficulty :: "js_string option"

definition learningCurve_of :: "QuestionRecord list \<Rightarrow> curve_point list" where
  "learningCurve_of history =
     map (\<lambda>(idx, q). \<lparr>question = idx + 1, correct01 = (if correct q then 1 else 0),
                       point_difficulty = difficulty q\<rparr>)
       (enumerate 0 (slice_last 10 history))"

text \<open>The trailing run of correct answers.\<close>

definition streak_of :: "QuestionRecord list \<Rightarrow> nat" where
  "streak_of history = length (takeWhile correct (rev history))"

text \<open>
  Decimal digits of a natural number, and \<open>toFixed(1)\<close> of a double: the tenths nearest to
  the value of the double, the larger of two equally near.
\<close>

fun show_nat :: "nat \<Rightarrow> js_string" where
  "show_nat n =
     (if n < 10 then [of_nat (48 + n)] else show_nat (n div 10) @ [of_nat (48 + n mod 10)])"

declare show_nat.simps [simp del]

definition toFixed1 :: "real \<Rightarrow> js_string" where
  "toFixed1 x =
     (let n = nat \<lfloor>\<bar>x\<bar> * 10 + 1 / 2\<rfloor>
      in (if x < 0 then js ''-'' else []) @ show_nat (n div 10) @ js ''.'' @ show_nat (n mod 10))"

record AnalyticsSummary =
  totalQuestions :: nat
  accuracy_pct :: int
  correct_count :: nat
  incorrect :: nat
  averageDifficulty :: js_string
  byDifficulty :: "(js_string \<times> counts) list"
  strengthAreas :: "area list"
  improvementAreas :: "area list"
  learningCurve :: "curve_point list"
  currentStreak :: nat

text \<open>
  The three responses of the handler: 200 with the literal all-zero summary, 200 with the
  computed summary, 500 with the message of the error caught.
\<close>

datatype analytics_response =
    EmptyState
  | Computed AnalyticsSummary
  | Failed js_string

definition analytics_status :: "analytics_response \<Rightarrow> nat" where
  "analytics_status r = (case r of Failed m \<Rightarrow> 500 | _ \<Rightarrow> 200)"

text \<open>The handler in a process whose prototype is in the state \<open>ps\<close>, and the state it leaves.\<close>

definition analytics_from ::
  "prototype_state \<Rightarrow> QuestionRecord list option \<Rightarrow> analytics_response \<times> prototype_state" where
  "analytics_from ps history_field =
     (case history_field of
        None \<Rightarrow> (EmptyState, ps)
      | Some history \<Rightarrow>
          if history = [] then (EmptyState, ps)
          else
            let correct_n = length (filter correct history);
                accuracy = to_double (to_double (real correct_n / real (length history)) * 100);
                difficulties = map difficulty_weight history;
                avgDifficulty =
                  to_double (real (sum_list difficulties) / real (length difficulties))
            in case tally_all ps byDifficulty_init history of
                 (ps', Inl error) \<Rightarrow> (Failed (message error), ps')
               | (ps', Inr t) \<Rightarrow>
                   (Computed
                      \<lparr>totalQuestions = length history,
                       accuracy_pct = Math_round accuracy,
                       correct_count = correct_n,
                       incorrect = length history - correct_n,
                       averageDifficulty = toFixed1 avgDifficulty,
                       byDifficulty = map (\<lambda>diff. (diff, the (t diff))) tiers,
                       strengthAreas = strengthAreas_of t,
                       improvementAreas = improvementAreas_of t,
                       learningCurve = learningCurve_of history,
                       currentStreak = streak_of history\<rparr>, ps'))"

text \<open>The response of the handler in a process that has not met the key \<open>__proto__\<close>.\<close>

definition analytics :: "QuestionRecord list option \<Rightarrow> analytics_response" where
  "analytics history_field = fst (analytics_from fresh_prototype history_field)"

text \<open>
  Per-tier counts and accuracy, as the specification speaks of them (a record without a
  difficulty counts for \<open>medio\<close>, as in the tally).
\<close>

definition tier_total :: "QuestionRecord list \<Rightarrow> js_string \<Rightarrow> nat" where
  "tier_total h d = length (filter (\<lambda>q. tier_of q = d) h)"

definition tier_correct :: "QuestionRecord list \<Rightarrow> js_string \<Rightarrow> nat" where
  "tier_correct h d = length (filter (\<lambda>q. tier_of q = d \<and> correct q) h)"

definition tier_accuracy :: "QuestionRecord list \<Rightarrow> js_string \<Rightarrow> real" where
  "tier_accuracy h d = 100 * real (tier_correct h d) / real (tier_total h d)"

section \<open>Speech (POST /api/language/speak)\<close>

text \<open>
  What the call to the speech provider comes to: \<open>fetch\<close> rejects; the response is not \<open>ok\<close>;
  reading the audio raises; or the audio arrives (its base64 text and its length in bytes).
\<close>

datatype tts =
    TtsFetchFails js_error
  | TtsNotOk nat js_string
  | TtsBodyFails js_error
  | TtsAudio js_string nat

definition tts_failed :: "tts \<Rightarrow> bool" where
  "tts_failed outcome = (case outcome of TtsAudio b n \<Rightarrow> False | _ \<Rightarrow> True)"

text \<open>The fallback response: the client is to speak the text itself.\<close>

definition native_speech :: "js_string \<Rightarrow> http_response" where
  "native_speech msg =
     \<lparr>status = 200,
      body = JObj [(js ''success'', JBool True), (js ''audioUrl'', JNull),
                   (js ''useNativeSpeech'', JBool True), (js ''message'', JStr msg)]\<rparr>"

text \<open>
  The handler, from the body fields \<open>text\<close> and \<open>voice\<close> (each absent or a JSON value)
  to the response. A truthy \<open>text\<close> that is not a string has no \<open>substring\<close>: the call raises
  a TypeError, which the \<open>catch\<close> turns into the fallback.
\<close>

definition speak ::
  "environment \<Rightarrow> tts \<Rightarrow> json option \<Rightarrow> json option \<Rightarrow> http_response" where
  "speak env outcome text voice_field =
     (let voice = (case voice_field of None \<Rightarrow> JStr (js ''nova'') | Some v \<Rightarrow> v)
      in if \<not> truthy_opt text then
           \<lparr>status = 400,
            body = JObj [(js ''success'', JBool False),
                         (js ''error'', JStr (js ''Text is required''))]\<rparr>
         else case the text of
           JStr s \<Rightarrow>
             (if \<not> truthy_str (OPENAI_API_KEY env) \<and> \<not> truthy_str (OPENROUTER_API_KEY env)
              then native_speech (js ''No API key - using browser speech'')
              else case outcome of
                TtsFetchFails e \<Rightarrow> native_speech (js ''Error - using browser fallback'')
              | TtsNotOk code errorText \<Rightarrow>
                  native_speech (js ''OpenAI TTS failed - using browser fallback'')
              | TtsBodyFails e \<Rightarrow> native_speech (js ''Error - using browser fallback'')
              | TtsAudio audioBase64 byteLength \<Rightarrow>
                  \<lparr>status = 200,
                   body = JObj [(js ''success'', JBool True),
                                (js ''audioUrl'',
                                   JStr (js ''data:audio/mp3;base64,'' @ audioBase64)),
                                (js ''useNativeSpeech'', JBool False),
                                (js ''provider'', JStr (js ''openai'')),
                                (js ''voice'', voice),
                                (js ''size'', JNum (real byteLength))]\<rparr>)
         | _ \<Rightarrow> native_speech (js ''Error - using browser fallback''))"

section \<open>Example inputs\<close>

text \<open>Seven records with topics; one record with a topic followed by five without.\<close>

definition history7 :: "QuestionRecord list" where
  "history7 = map (\<lambda>t. \<lparr>topic = Some (js t), difficulty = Some medio, correct = True\<rparr>)
     [''t1'', ''t2'', ''t3'', ''t4'', ''t5'', ''t6'', ''t7'']"

definition history6 :: "QuestionRecord list" where
  "history6 = \<lparr>topic = Some (js ''a''), difficulty = Some medio, correct = True\<rparr>
     # replicate 5 \<lparr>topic = None, difficulty = Some medio, correct = True\<rparr>"

text \<open>
  Parsed payloads: four options, three options, and four options without \<open>correctIndex\<close>.
\<close>

definition payload :: "json list \<Rightarrow> json" where
  "payload opts = JObj [(js ''question'', JStr (js ''2 + 2?'')),
                        (js ''options'', JArr opts),
                        (js ''correctIndex'', JNum 1)]"

definition payload_four :: json where
  "payload_four = payload [JStr (js ''3''), JStr (js ''4''), JStr (js ''5''), JStr (js ''6'')]"

definition payload_three :: json where
  "payload_three = payload [JStr (js ''3''), JStr (js ''4''), JStr (js ''5'')]"

definition payload_no_index :: json where
  "payload_no_index = JObj [(js ''question'', JStr (js ''2 + 2?'')),
                            (js ''options'', JArr [JStr (js ''3''), JStr (js ''4''),
                                                   JStr (js ''5''), JStr (js ''6'')])]"

text \<open>A stand-in for \<open>JSON.parse\<close> that reads the empty object and nothing else.\<close>

definition parse_only_braces :: "js_string \<Rightarrow> json option" where
  "parse_only_braces s = (if s = js ''{}'' then Some (JObj []) else None)"

definition env_production :: environment where
  "env_production = \<lparr>OPENROUTER_API_KEY = Some (js ''key''), OPENAI_API_KEY = None,
                      NODE_ENV = Some (js ''production'')\<rparr>"

text \<open>
  Histories: the example of the README; one record of difficulty \<open>hard\<close>; a correct \<open>medio\<close>
  record followed by one of difficulty \<open>hard\<close>; four \<open>medio\<close> records with three correct and
  two \<open>facil\<close> records with one correct, and the summary of the latter.
\<close>

definition q_of :: "js_string \<Rightarrow> bool \<Rightarrow> QuestionRecord" where
  "q_of d c = \<lparr>topic = None, difficulty = Some d, correct = c\<rparr>"

definition history_readme :: "QuestionRecord list" where
  "history_readme = [q_of facil True, q_of medio True, q_of dificil False]"

definition history_hard :: "QuestionRecord list" where
  "history_hard = [q_of (js ''hard'') True]"

definition history_mixed :: "QuestionRecord list" where
  "history_mixed = [q_of medio True, q_of (js ''hard'') True]"

definition history_boundary :: "QuestionRecord list" where
  "history_boundary =
     [q_of medio True, q_of medio True, q_of medio True, q_of medio False,
      q_of facil True, q_of facil False]"

definition env_none :: environment where
  "env_none = \<lparr>OPENROUTER_API_KEY = None, OPENAI_API_KEY = None, NODE_ENV = None\<rparr>"

definition summary_boundary :: AnalyticsSummary where
  "summary_boundary =
     \<lparr>totalQuestions = 6, accuracy_pct = 67, correct_count = 4, incorrect = 2,
      averageDifficulty = js ''1.7'',
      byDifficulty = [(facil, \<lparr>n_correct = 1, n_total = 2\<rparr>),
                      (medio, \<lparr>n_correct = 3, n_total = 4\<rparr>),
                      (dificil, \<lparr>n_correct = 0, n_total = 0\<rparr>)],
      strengthAreas = [\<lparr>level = medio, accuracy_rounded = 75\<rparr>],
      improvementAreas = [],
      learningCurve =
        [\<lparr>question = 1, correct01 = 1, point_difficulty = Some medio\<rparr>,
         \<lparr>question = 2, correct01 = 1, point_difficulty = Some medio\<rparr>,
         \<lparr>question = 3, correct01 = 1, point_difficulty = Some medio\<rparr>,
         \<lparr>question = 4, correct01 = 0, point_difficulty = Some medio\<rparr>,
         \<lparr>question = 5, correct01 = 1, point_difficulty = Some facil\<rparr>,
         \<lparr>question = 6, correct01 = 0, point_difficulty = Some facil\<rparr>],
      currentStreak = 0\<rparr>"

section \<open>Facts about the difficulty names\<close>

lemma difficulty_names_distinct:
  "facil \<noteq> medio" "facil \<noteq> dificil" "medio \<noteq> dificil"
  "medio \<noteq> facil" "dificil \<noteq> facil" "dificil \<noteq> medio"
  by (simp_all add: facil_def medio_def dificil_def js_def)

lemma reasons_distinct:
  "reason_alto \<noteq> reason_bajo" "reason_alto \<noteq> reason_estable" "reason_bajo \<noteq> reason_estable"
  by (simp_all add: reason_alto_def reason_bajo_def reason_estable_def js_def)

section \<open>Facts about doubles\<close>

lemmas double_eval =
  to_double_def quantum_def round_half_even_def Let_def find_exponent.simps

text \<open>
  The doubles of the literals and of the numbers used below; \<open>0.8\<close> is the double
  \<open>0.8000000000000000444\<close>, \<open>0.5\<close> is exact.
\<close>

lemma double_literals:
  "to_double 0 = 0"
  "to_double (1 / 2) = 1 / 2"
  "to_double (4 / 5) = 3602879701896397 / 4503599627370496"
  "to_double (9 / 10) = 8106479329266893 / 9007199254740992"
  "to_double (3 / 10) = 5404319552844595 / 18014398509481984"
  by (simp_all add: double_eval)

text \<open>
  Numbers that are written differently and are the same double; a double is its own double.
\<close>

lemma double_roundings:
  "to_double 0.80000000000000001 = to_double 0.8"
  "to_double 0.49999999999999999 = to_double 0.5"
  "to_double (to_double 0.8) = to_double 0.8"
  by (simp_all add: double_eval)

section \<open>Facts about the estimator\<close>

lemma streak_used_eq_spec: "streak_used performance = spec_streak performance"
  by (simp add: streak_used_def spec_streak_def or_int_def split: option.splits)

lemma avgAccuracy_eq_spec:
  "avgAccuracy performance =
     (if spec_accuracy performance = 0 then 0.5 else spec_accuracy performance)"
  by (simp add: avgAccuracy_def spec_accuracy_def or_num_def double_literals
      split: option.splits)

section \<open>The difficulty estimator\<close>

text \<open>
  C1 (as the source has it). Read on the fields of the signal, the accuracy being the double
  nearest to the number sent (an absent accuracy counting as 0.5, an absent streak as 0) and
  0.8 the double of that literal, the estimator follows the three-way rule of the
  specification for every signal whose accuracy is not 0: Hard exactly when accuracy > 0.8
  and streak >= 3, otherwise Easy exactly when accuracy < 0.5 or streak < 0, otherwise
  Medium. An accuracy of exactly 0.8 never gives Hard, and a streak of exactly 0 gives Easy
  only through the accuracy clause. For an accuracy of exactly 0 the estimator uses 0.5
  instead: the result is Easy when the streak is negative and Medium otherwise.
\<close>

theorem targetDifficulty_rule:
  "(spec_accuracy p \<noteq> 0 \<longrightarrow> targetDifficulty p = spec_estimator p)
   \<and> (spec_accuracy p = 0 \<longrightarrow>
        targetDifficulty p = (if spec_streak p < 0 then facil else medio))
   \<and> (spec_accuracy p = to_double 0.8 \<longrightarrow> targetDifficulty p \<noteq> dificil)
   \<and> (spec_streak p = 0 \<and> targetDifficulty p = facil \<longrightarrow>
        spec_accuracy p < to_double 0.5 \<and> spec_accuracy p \<noteq> 0)"
  by (simp add: targetDifficulty_def spec_estimator_def avgAccuracy_eq_spec
      streak_used_eq_spec difficulty_names_distinct double_literals)

text \<open>
  At accuracy 0.9 with streak 3 (Hard), 0 with streak -1 (Easy), 0.8 with streak 5 (Medium)
  and 0.3 with streak 0 (Easy); a number just above 0.8 that is the double 0.8 gives Medium
  with streak 5, and a number just below 0.5 that is the double 0.5 gives Medium with
  streak 0.
\<close>

theorem targetDifficulty_rule_witness:
  "spec_accuracy (Some \<lparr>accuracy = Some 0.9, streak = Some 3\<rparr>) \<noteq> 0
   \<and> targetDifficulty (Some \<lparr>accuracy = Some 0.9, streak = Some 3\<rparr>) = dificil
   \<and> spec_accuracy (Some \<lparr>accuracy = Some 0, streak = Some (- 1)\<rparr>) = 0
   \<and> targetDifficulty (Some \<lparr>accuracy = Some 0, streak = Some (- 1)\<rparr>) = facil
   \<and> spec_accuracy (Some \<lparr>accuracy = Some 0.8, streak = Some 5\<rparr>) = to_double 0.8
   \<and> targetDifficulty (Some \<lparr>accuracy = Some 0.8, streak = Some 5\<rparr>) = medio
   \<and> spec_streak (Some \<lparr>accuracy = Some 0.3, streak = Some 0\<rparr>) = 0
   \<and> targetDifficulty (Some \<lparr>accuracy = Some 0.3, streak = Some 0\<rparr>) = facil
   \<and> spec_accuracy (Some \<lparr>accuracy = Some 0.80000000000000001, streak = Some 5\<rparr>)
        = to_double 0.8
   \<and> targetDifficulty (Some \<lparr>accuracy = Some 0.80000000000000001, streak = Some 5\<rparr>) = medio
   \<and> spec_accuracy (Some \<lparr>accuracy = Some 0.49999999999999999, streak = Some 0\<rparr>) \<noteq> 0
   \<and> targetDifficulty (Some \<lparr>accuracy = Some 0.49999999999999999, streak = Some 0\<rparr>) = medio"
proof -
  have a: "spec_accuracy (Some \<lparr>accuracy = Some 0.9, streak = Some 3\<rparr>) = to_double 0.9"
    "spec_accuracy (Some \<lparr>accuracy = Some 0, streak = Some (- 1)\<rparr>) = 0"
    "spec_accuracy (Some \<lparr>accuracy = Some 0.8, streak = Some 5\<rparr>) = to_double 0.8"
    "spec_accuracy (Some \<lparr>accuracy = Some 0.3, streak = Some 0\<rparr>) = to_double 0.3"
    "spec_accuracy (Some \<lparr>accuracy = Some 0.80000000000000001, streak = Some 5\<rparr>)
       = to_double 0.8"
    "spec_accuracy (Some \<lparr>accuracy = Some 0.49999999999999999, streak = Some 0\<rparr>)
       = to_double 0.5"
    by (simp_all add: spec_accuracy_def double_literals double_roundings [simplified])
  have s: "spec_streak (Some \<lparr>accuracy = x, streak = Some k\<rparr>) = k" for x k
    by (simp add: spec_streak_def)
  show ?thesis
    using targetDifficulty_rule [of "Some \<lparr>accuracy = Some 0.9, streak = Some 3\<rparr>"]
      targetDifficulty_rule [of "Some \<lparr>accuracy = Some 0, streak = Some (- 1)\<rparr>"]
      targetDifficulty_rule [of "Some \<lparr>accuracy = Some 0.8, streak = Some 5\<rparr>"]
      targetDifficulty_rule [of "Some \<lparr>accuracy = Some 0.3, streak = Some 0\<rparr>"]
      targetDifficulty_rule [of "Some \<lparr>accuracy = Some 0.80000000000000001, streak = Some 5\<rparr>"]
      targetDifficulty_rule [of "Some \<lparr>accuracy = Some 0.49999999999999999, streak = Some 0\<rparr>"]
    unfolding a s spec_estimator_def
    by (simp add: double_literals difficulty_names_distinct)
qed

text \<open>
  C1 as stated fails: a signal with accuracy 0 and streak 0 meets the Easy rule (0 < 0.5) and
  not the Hard rule, and the estimator answers Medium.
\<close>

theorem targetDifficulty_accuracy_zero_counterexample:
  "spec_estimator (Some \<lparr>accuracy = Some 0, streak = Some 0\<rparr>) = facil
   \<and> targetDifficulty (Some \<lparr>accuracy = Some 0, streak = Some 0\<rparr>) = medio
   \<and> targetDifficulty (Some \<lparr>accuracy = Some 0, streak = Some 0\<rparr>)
       \<noteq> spec_estimator (Some \<lparr>accuracy = Some 0, streak = Some 0\<rparr>)"
  by (simp add: spec_estimator_def spec_accuracy_def spec_streak_def targetDifficulty_def
      avgAccuracy_def streak_used_def or_num_def or_int_def difficulty_names_distinct
      double_literals)

text \<open>
  C10. Every falsy performance field is replaced by its default, not only an absent one: with
  accuracy exactly 0 the accuracy used is 0.5, so accuracy 0 with streak 0, 1 or 2 gives
  Medium and not Easy; the streak used is 0 for an absent streak and for a streak of 0.
\<close>

theorem falsy_fields_default:
  "avgAccuracy (Some \<lparr>accuracy = Some 0, streak = k\<rparr>) = 0.5
   \<and> avgAccuracy (Some \<lparr>accuracy = None, streak = k\<rparr>) = 0.5
   \<and> avgAccuracy None = 0.5
   \<and> (k \<in> {Some 0, Some 1, Some 2} \<longrightarrow>
        targetDifficulty (Some \<lparr>accuracy = Some 0, streak = k\<rparr>) = medio
        \<and> targetDifficulty (Some \<lparr>accuracy = Some 0, streak = k\<rparr>) \<noteq> facil)
   \<and> streak_used (Some \<lparr>accuracy = a, streak = Some 0\<rparr>) = 0
   \<and> streak_used (Some \<lparr>accuracy = a, streak = None\<rparr>) = 0
   \<and> streak_used None = 0"
  by (auto simp add: avgAccuracy_def streak_used_def or_num_def or_int_def
      targetDifficulty_def difficulty_names_distinct double_literals)

theorem falsy_fields_default_witness:
  "Some 2 \<in> {Some 0, Some 1, Some (2::int)}
   \<and> targetDifficulty (Some \<lparr>accuracy = Some 0, streak = Some 2\<rparr>) = medio"
  using falsy_fields_default [of "Some 2" None]
  by simp

section \<open>The adaptive rationale\<close>

text \<open>
  C4 at a failing input: with accuracy 0.9 and streak 0 the target difficulty is Medium and
  the rationale is the difficulty-increasing one; with accuracy 0.9 and streak -1 the target
  is Easy and the rationale is still the difficulty-increasing one.
\<close>

theorem adaptiveReason_ignores_streak:
  "targetDifficulty (Some \<lparr>accuracy = Some 0.9, streak = Some 0\<rparr>) = medio
   \<and> adaptiveReason (Some \<lparr>accuracy = Some 0.9, streak = Some 0\<rparr>) = reason_alto
   \<and> spec_reason (Some \<lparr>accuracy = Some 0.9, streak = Some 0\<rparr>) = reason_estable
   \<and> targetDifficulty (Some \<lparr>accuracy = Some 0.9, streak = Some (- 1)\<rparr>) = facil
   \<and> adaptiveReason (Some \<lparr>accuracy = Some 0.9, streak = Some (- 1)\<rparr>) = reason_alto
   \<and> spec_reason (Some \<lparr>accuracy = Some 0.9, streak = Some (- 1)\<rparr>) = reason_bajo"
  by (simp add: targetDifficulty_def adaptiveReason_def spec_reason_def avgAccuracy_def
      streak_used_def or_num_def or_int_def difficulty_names_distinct double_literals)

section \<open>Fence stripping\<close>


























lemma skip_newline_append:
  "p \<noteq> [] \<Longrightarrow> skip_newline (p @ r) = skip_newline p @ r"
  by (cases p) (simp_all add: skip_newline_def)






text \<open>Of a tag that begins with \<open>json\<close>, what follows \<open>json\<close> stays.\<close>

lemma strip_fences_json5_example:
  "strip_fences (fence @ js ''json5'' @ [0x0A] @ js ''{}'' @ [0x0A] @ fence)
     = js ''5'' @ [0x0A] @ js ''{}''"
  by (simp add: strip_fences_def fence_def fence_json_def js_def skip_newline_def trim_def
      trimStart_def trimEnd_def is_space_def)

section \<open>The recent-topics filter\<close>

lemma filter_map_topic:
  "map the (filter truthy_str (map topic xs))
     = map (\<lambda>q. the (topic q)) (filter (\<lambda>q. truthy_str (topic q)) xs)"
  by (induction xs) auto

lemma slice_last_length: "length (slice_last n xs) \<le> n"
  by (simp add: slice_last_def)

lemma slice_last_append: "length ys = n \<Longrightarrow> slice_last n (xs @ ys) = ys"
  by (simp add: slice_last_def)

lemma slice_last_short: "length xs \<le> n \<Longrightarrow> slice_last n xs = xs"
  by (simp add: slice_last_def)

lemma slice_last_filter:
  assumes "\<forall>q\<in>set (slice_last n h). P q"
  shows "slice_last n (filter P h) = slice_last n h"
proof (cases "length h \<le> n")
  case True
  then have "slice_last n h = h" by (rule slice_last_short)
  with assms have "filter P h = h" by simp
  then show ?thesis by simp
next
  case False
  let ?k = "length h - n"
  have "filter P h = filter P (take ?k h) @ filter P (drop ?k h)"
    by (metis append_take_drop_id filter_append)
  also have "filter P (drop ?k h) = drop ?k h"
    using assms by (simp add: slice_last_def)
  finally have "slice_last n (filter P h) = drop ?k h"
    using False by (simp add: slice_last_append)
  then show ?thesis by (simp add: slice_last_def)
qed

text \<open>
  C5 (as the source has it). The filter takes the last five records first and then keeps the
  topics of those among them that bear a (non-empty) topic, in the original order, joined
  by a comma and a space: at most five topics; for a history of seven records that all bear
  a topic, exactly the last five topics; the empty string for an empty or absent history.
  Whenever each of the last five records bears a topic, this is the list of the last five
  topic-bearing records.
\<close>

theorem recentTopics_window:
  "recentTopics None = []
   \<and> recentTopics (Some []) = []
   \<and> recentTopics (Some h) =
        join (js '', '')
          (map (\<lambda>q. the (topic q)) (filter (\<lambda>q. truthy_str (topic q)) (slice_last 5 h)))
   \<and> length (filter (\<lambda>q. truthy_str (topic q)) (slice_last 5 h)) \<le> 5
   \<and> (length h = 7 \<and> (\<forall>q\<in>set h. truthy_str (topic q)) \<longrightarrow>
        recentTopics (Some h) = join (js '', '') (map (\<lambda>q. the (topic q)) (drop 2 h)))
   \<and> ((\<forall>q\<in>set (slice_last 5 h). truthy_str (topic q)) \<longrightarrow>
        recentTopics (Some h) = spec_recentTopics (Some h))"
proof -
  have a: "recentTopics (Some h) =
        join (js '', '')
          (map (\<lambda>q. the (topic q)) (filter (\<lambda>q. truthy_str (topic q)) (slice_last 5 h)))"
    by (simp add: recentTopics_def filter_map_topic)
  have b: "length (filter (\<lambda>q. truthy_str (topic q)) (slice_last 5 h)) \<le> 5"
    using slice_last_length [of 5 h] length_filter_le le_trans by blast
  have c: "recentTopics (Some h) = join (js '', '') (map (\<lambda>q. the (topic q)) (drop 2 h))"
    if "length h = 7" and all: "\<forall>q\<in>set h. truthy_str (topic q)"
  proof -
    have "slice_last 5 h = drop 2 h" using that by (simp add: slice_last_def)
    moreover have "filter (\<lambda>q. truthy_str (topic q)) (drop 2 h) = drop 2 h"
      using all by (meson filter_True in_set_dropD)
    ultimately show ?thesis using a by simp
  qed
  have d: "recentTopics (Some h) = spec_recentTopics (Some h)"
    if "\<forall>q\<in>set (slice_last 5 h). truthy_str (topic q)"
  proof -
    have "slice_last 5 (filter (\<lambda>q. truthy_str (topic q)) h) = slice_last 5 h"
      using that by (rule slice_last_filter)
    moreover have "filter (\<lambda>q. truthy_str (topic q)) (slice_last 5 h) = slice_last 5 h"
      using that by simp
    ultimately show ?thesis using a by (simp add: spec_recentTopics_def)
  qed
  show ?thesis using a b c d by (simp add: recentTopics_def slice_last_def)
qed

theorem recentTopics_window_witness:
  "length history7 = 7 \<and> list_all (\<lambda>q. truthy_str (topic q)) history7
   \<and> recentTopics (Some history7) = js ''t3, t4, t5, t6, t7''"
  using recentTopics_window [of history7]
  by (simp add: history7_def truthy_str_def js_def slice_last_def recentTopics_def)

text \<open>
  C5 as stated fails: with one topic-bearing record followed by five records without a topic,
  the last topic-bearing record is not among the last five records and the result is empty.
\<close>

theorem recentTopics_counterexample:
  "recentTopics (Some history6) = []
   \<and> spec_recentTopics (Some history6) = js ''a''
   \<and> recentTopics (Some history6) \<noteq> spec_recentTopics (Some history6)"
  by (simp add: recentTopics_def spec_recentTopics_def slice_last_def truthy_str_def js_def
      history6_def numeral_eq_Suc)

section \<open>The field check\<close>

lemma valid_question_obj:
  "valid_question (JObj kvs) \<longleftrightarrow>
     (\<exists>v. map_of (rev kvs) (js ''question'') = Some v \<and> truthy v)
     \<and> (\<exists>xs. map_of (rev kvs) (js ''options'') = Some (JArr xs))
     \<and> map_of (rev kvs) (js ''correctIndex'') \<noteq> None"
  by (auto simp: valid_question_def truthy_opt_def isArray_def split: option.splits json.splits)

lemma valid_question_not_obj: "(\<forall>kvs. q \<noteq> JObj kvs) \<Longrightarrow> \<not> valid_question q"
  by (cases q) (auto simp: valid_question_def truthy_opt_def)

lemma spec_schema_valid: "spec_schema q \<Longrightarrow> valid_question q"
  by (cases q) (auto simp: spec_schema_def valid_question_obj split: option.splits json.splits)

text \<open>
  C2 (as the source has it). The check accepts a parsed payload exactly when it is an object
  whose \<open>question\<close> is truthy, whose \<open>options\<close> is an array and whose \<open>correctIndex\<close> is
  present. So a payload without \<open>correctIndex\<close> is rejected, every payload that meets the
  schema of the specification is accepted, and a rejected payload ends the \<open>try\<close> block in
  its \<open>catch\<close>. The length of \<open>options\<close>, the type of its entries and the type and range of
  \<open>correctIndex\<close> are not looked at.
\<close>

theorem valid_question_accepts:
  "(valid_question q \<longleftrightarrow>
      (\<exists>kvs. q = JObj kvs
         \<and> (\<exists>v. map_of (rev kvs) (js ''question'') = Some v \<and> truthy v)
         \<and> (\<exists>xs. map_of (rev kvs) (js ''options'') = Some (JArr xs))
         \<and> map_of (rev kvs) (js ''correctIndex'') \<noteq> None))
   \<and> (get_field q (js ''correctIndex'') = None \<longrightarrow> \<not> valid_question q)
   \<and> (spec_schema q \<longrightarrow> valid_question q)
   \<and> (\<not> valid_question q \<longrightarrow> parse_question (\<lambda>s. Some q) s = None)"
proof -
  have "valid_question q \<longleftrightarrow>
      (\<exists>kvs. q = JObj kvs
         \<and> (\<exists>v. map_of (rev kvs) (js ''question'') = Some v \<and> truthy v)
         \<and> (\<exists>xs. map_of (rev kvs) (js ''options'') = Some (JArr xs))
         \<and> map_of (rev kvs) (js ''correctIndex'') \<noteq> None)"
    using valid_question_obj valid_question_not_obj by (cases q) auto
  moreover have "get_field q (js ''correctIndex'') = None \<longrightarrow> \<not> valid_question q"
    by (cases q) (auto simp: valid_question_def)
  ultimately show ?thesis
    using spec_schema_valid by (auto simp: parse_question_def)
qed

theorem valid_question_accepts_witness:
  "spec_schema payload_four \<and> valid_question payload_four
   \<and> get_field payload_no_index (js ''correctIndex'') = None
   \<and> \<not> valid_question payload_no_index
   \<and> parse_question (\<lambda>s. Some payload_no_index) (js ''{}'') = None"
  using valid_question_accepts [of payload_four] valid_question_accepts [of payload_no_index]
  by (simp add: payload_four_def payload_no_index_def payload_def spec_schema_def js_def
      is_string_def)

text \<open>
  C2 as stated fails: a payload with three options violates the schema and is accepted.
\<close>

theorem valid_question_three_options_counterexample:
  "valid_question payload_three \<and> \<not> spec_schema payload_three"
  by (simp add: payload_three_def payload_def spec_schema_def js_def is_string_def
      valid_question_def truthy_opt_def isArray_def)

section \<open>The response to an unusable provider text\<close>

text \<open>
  C6. Whenever stripping, parsing or the field check of the provider text fails, the
  response is the fixed one: status 500 with the message \<open>AI generated invalid response format\<close>
  (and, in development, that message behind \<open>Error: \<close> as details). It is the same for
  any two provider texts that fail, whatever the request, the clock and the usage data
  were, and whether the text was not JSON or JSON that fails the check. The raw text goes
  to the console only.
\<close>

theorem parse_failure_response:
  assumes "truthy_str levelA" "truthy_str subjectA" "truthy_str levelB" "truthy_str subjectB"
    and "truthy_str (OPENROUTER_API_KEY env)"
    and "parse_question P (trim cA) = None" and "parse_question P (trim cB) = None"
  shows "fst (generate env nowA P (Content cA uA) levelA subjectA perfA histA)
           = fst (generate env nowB P (Content cB uB) levelB subjectB perfB histB)
     \<and> fst (generate env nowA P (Content cA uA) levelA subjectA perfA histA)
           = \<lparr>status = 500,
              body = JObj ([(js ''success'', JBool False),
                            (js ''error'', JStr (js ''AI generated invalid response format''))]
                   @ (if NODE_ENV env = Some (js ''development'')
                      then [(js ''details'',
                             JStr (js ''Error: AI generated invalid response format''))]
                      else []))\<rparr>
     \<and> LogError [js ''Failed to parse AI response:'', trim cA]
           \<in> set (snd (generate env nowA P (Content cA uA) levelA subjectA perfA histA))"
proof -
  have m: "js ''AI generated invalid response format'' \<noteq> []"
    by (simp add: js_def)
  have e: "generation_error env (new_Error (js ''AI generated invalid response format''))
      = \<lparr>status = 500,
              body = JObj ([(js ''success'', JBool False),
                            (js ''error'', JStr (js ''AI generated invalid response format''))]
                   @ (if NODE_ENV env = Some (js ''development'')
                      then [(js ''details'',
                             JStr (js ''Error: AI generated invalid response format''))]
                      else []))\<rparr>"
    unfolding generation_error_def new_Error_def error_toString_def
    by (simp add: js_def)
  have g: "generate env now P (Content c u) level subject perf hist
      = (generation_error env (new_Error (js ''AI generated invalid response format'')),
         [Log [js ''Generating question for '' @ the level @ js '' - '' @ the subject
                           @ js '' (difficulty: '' @ targetDifficulty perf @ js '')''],
          LogError [js ''Failed to parse AI response:'', trim c],
          LogError [js ''Adaptive generation error:'',
             error_toString (new_Error (js ''AI generated invalid response format''))]])"
    if "truthy_str level" "truthy_str subject" "parse_question P (trim c) = None"
    for now c u level subject perf hist
    using that assms(5) by (simp add: generate_def Let_def)
  show ?thesis
    using g [OF assms(1,2,6)] g [OF assms(3,4,7)] e by simp
qed

theorem parse_failure_response_witness:
  "truthy_str (Some (js ''ESO'')) \<and> truthy_str (OPENROUTER_API_KEY env_production)
   \<and> parse_question parse_only_braces (trim (js ''not json'')) = None
   \<and> parse_question parse_only_braces (trim (js ''{}'')) = None
   \<and> fst (generate env_production (js ''10:00'') parse_only_braces (Content (js ''not json'') None)
           (Some (js ''ESO'')) (Some (js ''Lengua'')) None None)
      = fst (generate env_production (js ''11:00'') parse_only_braces (Content (js ''{}'') None)
           (Some (js ''ESO'')) (Some (js ''Lengua'')) None None)"
proof -
  have a: "truthy_str (Some (js ''ESO''))" "truthy_str (Some (js ''Lengua''))"
    by (simp_all add: truthy_str_def js_def)
  have k: "truthy_str (OPENROUTER_API_KEY env_production)"
    by (simp add: env_production_def truthy_str_def js_def)
  have s1: "strip_fences (trim (js ''not json'')) = js ''not json''"
    by (simp add: strip_fences_def fence_def fence_json_def js_def skip_newline_def trim_def
      trimStart_def trimEnd_def is_space_def)
  have s2: "strip_fences (trim (js ''{}'')) = js ''{}''"
    by (simp add: strip_fences_def fence_def fence_json_def js_def skip_newline_def trim_def
      trimStart_def trimEnd_def is_space_def)
  have p1: "parse_question parse_only_braces (trim (js ''not json'')) = None"
    unfolding parse_question_def s1 by (simp add: parse_only_braces_def js_def)
  have p2: "parse_question parse_only_braces (trim (js ''{}'')) = None"
    unfolding parse_question_def s2
    by (simp add: parse_only_braces_def valid_question_def truthy_opt_def)
  show ?thesis
    using parse_failure_response [OF a a k p1 p2, where nowA = "js ''10:00''" and nowB = "js ''11:00''"
        and uA = None and uB = None and perfA = None and perfB = None and histA = None
        and histB = None] a k p1 p2
    by simp
qed

section \<open>The analytics tally\<close>

lemma tiers_distinct: "distinct tiers"
  by (simp add: tiers_def difficulty_names_distinct)

lemma init_tiers: "d \<in> set tiers \<Longrightarrow> byDifficulty_init d = Some \<lparr>n_correct = 0, n_total = 0\<rparr>"
  by (auto simp: tiers_def byDifficulty_init_def difficulty_names_distinct)

lemma tally_step_counts:
  assumes "tally_step ps t0 q = Inr (ps', t)" and "t0 d = Some c0"
  shows "t d = Some \<lparr>n_correct = n_correct c0 + tier_correct [q] d,
                      n_total = n_total c0 + tier_total [q] d\<rparr>"
  using assms
  by (auto simp: tally_step_def tier_correct_def tier_total_def split: option.splits if_splits)

lemma tier_counts_Cons:
  "tier_total (q # qs) d = tier_total [q] d + tier_total qs d"
  "tier_correct (q # qs) d = tier_correct [q] d + tier_correct qs d"
  by (simp_all add: tier_total_def tier_correct_def)

lemma tally_all_counts:
  "tally_all ps t0 h = (ps', Inr t) \<Longrightarrow> t0 d = Some c0 \<Longrightarrow>
     t d = Some \<lparr>n_correct = n_correct c0 + tier_correct h d,
                  n_total = n_total c0 + tier_total h d\<rparr>"
proof (induction h arbitrary: ps t0 c0)
  case Nil
  then show ?case by (simp add: tier_total_def tier_correct_def)
next
  case (Cons q qs)
  from Cons.prems(1) obtain ps1 t1 where s: "tally_step ps t0 q = Inr (ps1, t1)"
    and r: "tally_all ps1 t1 qs = (ps', Inr t)"
    by (auto split: sum.splits prod.splits)
  from tally_step_counts [OF s Cons.prems(2)]
  have "t1 d = Some \<lparr>n_correct = n_correct c0 + tier_correct [q] d,
                      n_total = n_total c0 + tier_total [q] d\<rparr>" .
  from Cons.IH [OF r this] show ?case
    by (simp add: tier_counts_Cons [of q qs] add.assoc)
qed

lemma tally_result:
  assumes "tally_all ps byDifficulty_init h = (ps', Inr t)" and "d \<in> set tiers"
  shows "t d = Some \<lparr>n_correct = tier_correct h d, n_total = tier_total h d\<rparr>"
  using tally_all_counts [OF assms(1) init_tiers [OF assms(2)]] by simp

lemma tally_step_known:
  assumes "tier_of q \<in> set tiers" and "\<forall>d\<in>set tiers. t0 d \<noteq> None"
  shows "\<exists>t. tally_step ps t0 q = Inr (ps, t) \<and> (\<forall>d\<in>set tiers. t d \<noteq> None)"
  using assms by (auto simp: tally_step_def split: option.splits)

lemma tally_all_known:
  "\<forall>q\<in>set h. tier_of q \<in> set tiers \<Longrightarrow> \<forall>d\<in>set tiers. t0 d \<noteq> None \<Longrightarrow>
     \<exists>t. tally_all ps t0 h = (ps, Inr t)"
proof (induction h arbitrary: t0)
  case Nil
  then show ?case by simp
next
  case (Cons q qs)
  then obtain t1 where "tally_step ps t0 q = Inr (ps, t1)" and "\<forall>d\<in>set tiers. t1 d \<noteq> None"
    using tally_step_known [of q t0 ps] by auto
  with Cons show ?case by auto
qed

lemma areas_levels:
  assumes "\<forall>d\<in>set tiers. t d = Some (c d)"
  shows "level ` set (strengthAreas_of t)
           = {d \<in> set tiers. n_total (c d) > 0 \<and> acc_of (c d) \<ge> 75}"
    and "level ` set (improvementAreas_of t)
           = {d \<in> set tiers. n_total (c d) > 0 \<and> acc_of (c d) < 50}"
  using assms
  by (auto simp: strengthAreas_of_def improvementAreas_of_def image_iff split: if_splits)

text \<open>
  Wherever the handler computes a summary, in whatever state of the prototype, the tally
  holds the per-tier counts of the history, and a tier is in \<open>strengthAreas\<close>
  (\<open>improvementAreas\<close>) exactly when it has an attempt and the percentage the handler computes
  from those counts is at least 75 (below 50). Every non-empty history whose records carry
  one of the three difficulties (or none) has a summary.
\<close>

lemma summary_areas:
  assumes "fst (analytics_from ps (Some h)) = Computed a"
  shows "level ` set (strengthAreas a)
           = {d \<in> set tiers. tier_total h d > 0
                \<and> acc_of \<lparr>n_correct = tier_correct h d, n_total = tier_total h d\<rparr> \<ge> 75}"
    and "level ` set (improvementAreas a)
           = {d \<in> set tiers. tier_total h d > 0
                \<and> acc_of \<lparr>n_correct = tier_correct h d, n_total = tier_total h d\<rparr> < 50}"
    and "byDifficulty a
           = map (\<lambda>d. (d, \<lparr>n_correct = tier_correct h d, n_total = tier_total h d\<rparr>)) tiers"
proof -
  from assms obtain ps' t where t: "tally_all ps byDifficulty_init h = (ps', Inr t)"
    and s: "strengthAreas a = strengthAreas_of t"
    and i: "improvementAreas a = improvementAreas_of t"
    and b: "byDifficulty a = map (\<lambda>diff. (diff, the (t diff))) tiers"
    by (auto simp: analytics_from_def Let_def split: if_splits sum.splits prod.splits)
  have c: "\<forall>d\<in>set tiers.
      t d = Some \<lparr>n_correct = tier_correct h d, n_total = tier_total h d\<rparr>"
    using tally_result [OF t] by blast
  from areas_levels [OF c] s i
  show "level ` set (strengthAreas a)
           = {d \<in> set tiers. tier_total h d > 0
                \<and> acc_of \<lparr>n_correct = tier_correct h d, n_total = tier_total h d\<rparr> \<ge> 75}"
    and "level ` set (improvementAreas a)
           = {d \<in> set tiers. tier_total h d > 0
                \<and> acc_of \<lparr>n_correct = tier_correct h d, n_total = tier_total h d\<rparr> < 50}"
    by simp_all
  from b c show "byDifficulty a
           = map (\<lambda>d. (d, \<lparr>n_correct = tier_correct h d, n_total = tier_total h d\<rparr>)) tiers"
    by simp
qed

lemma summary_exists:
  assumes "h \<noteq> []" and "\<forall>q\<in>set h. tier_of q \<in> set tiers"
  shows "\<exists>a. fst (analytics_from ps (Some h)) = Computed a"
proof -
  have "\<forall>d\<in>set tiers. byDifficulty_init d \<noteq> None"
    using init_tiers by simp
  with assms(2) obtain t where "tally_all ps byDifficulty_init h = (ps, Inr t)"
    using tally_all_known by blast
  with assms(1) show ?thesis by (simp add: analytics_from_def Let_def)
qed

lemmas analytics_eval =
  analytics_def analytics_from_def fresh_prototype_def Let_def tally_step_def tier_of_def
  byDifficulty_init_def difficulty_weight_def object_prototype_keys_def undefined_total_def
  strengthAreas_of_def improvementAreas_of_def tiers_def
  learningCurve_of_def slice_last_def enumerate_eq_zip streak_of_def q_of_def
  facil_def medio_def dificil_def js_def

lemmas number_eval =
  acc_of_def Math_round_def toFixed1_def double_eval js_def

text \<open>The request and the response that the README documents.\<close>

lemma analytics_readme_example:
  "(case analytics (Some history_readme) of
      Computed a \<Rightarrow>
        totalQuestions a = 3 \<and> accuracy_pct a = 67 \<and> correct_count a = 2 \<and> incorrect a = 1
        \<and> averageDifficulty a = js ''2.0'' \<and> currentStreak a = 0
        \<and> map level (strengthAreas a) = [facil, medio]
        \<and> map level (improvementAreas a) = [dificil]
    | _ \<Rightarrow> False)"
  apply (simp add: history_readme_def analytics_eval)
  apply (simp add: number_eval show_nat.simps [of 2] show_nat.simps [of 0])
  done

text \<open>
  A tier at exactly 75 per cent is a strength, a tier at exactly 50 per cent is in neither
  list.
\<close>

lemma analytics_boundary_example:
  "analytics (Some history_boundary) = Computed summary_boundary"
  apply (simp add: history_boundary_def summary_boundary_def analytics_eval)
  apply (simp add: number_eval show_nat.simps [of "Suc 0"] show_nat.simps [of 7])
  done

text \<open>
  \<open>Math.round\<close> and \<open>toFixed\<close> read the double: 23 correct of 40 is 57 per cent (the double
  computed is just below 57.5), and a mean weight of 29/20 is shown as 1.4.
\<close>

lemma rounding_reads_the_double:
  "Math_round (to_double (to_double (23 / 40) * 100)) = 57"
  "toFixed1 (to_double (29 / 20)) = js ''1.4''"
  by (simp_all add: number_eval show_nat.simps [of "Suc 0"] show_nat.simps [of 4])

text \<open>
  C8 at a failing input: in the history of one correct \<open>medio\<close> record and one record of
  difficulty \<open>hard\<close>, the tier \<open>medio\<close> has one attempt and an accuracy of 100 per cent, and
  the handler answers 500 with the message of the TypeError raised by the tally, in every
  state of the prototype: no \<open>strengthAreas\<close> is returned.
\<close>

theorem analytics_mixed_history_fails:
  "tier_total history_mixed medio = 1
   \<and> tier_accuracy history_mixed medio = 100
   \<and> analytics (Some history_mixed)
       = Failed (js ''Cannot read properties of undefined (reading 'total')'')
   \<and> analytics_status (analytics (Some history_mixed)) = 500
   \<and> fst (analytics_from ps (Some history_mixed))
       = Failed (js ''Cannot read properties of undefined (reading 'total')'')"
  by (simp add: history_mixed_def tier_total_def tier_correct_def tier_accuracy_def
      analytics_status_def analytics_eval)

text \<open>
  C3 at a failing input: for the one-record history whose difficulty is \<open>hard\<close>, the weight of
  the record is 2 (the \<open>default\<close> of the \<open>switch\<close>), and the handler answers 500 with the
  message of the TypeError raised by the tally.
\<close>

theorem analytics_unknown_difficulty_fails:
  "difficulty_weight (q_of (js ''hard'') True) = 2
   \<and> analytics (Some history_hard)
       = Failed (js ''Cannot read properties of undefined (reading 'total')'')
   \<and> analytics_status (analytics (Some history_hard)) = 500"
  by (simp add: history_hard_def analytics_status_def analytics_eval)

section \<open>The speech fallback\<close>

lemma native_speech_fields:
  "status (native_speech m) = 200"
  "get_field (body (native_speech m)) (js ''success'') = Some (JBool True)"
  "get_field (body (native_speech m)) (js ''audioUrl'') = Some JNull"
  "get_field (body (native_speech m)) (js ''useNativeSpeech'') = Some (JBool True)"
  by (simp_all add: native_speech_def js_def)

text \<open>
  C9 (as the source has it). Every request whose \<open>text\<close> is truthy gets status 200 with
  \<open>success: true\<close>, whatever the environment and the provider do; when no key is configured,
  when the provider call fails in any way, or when \<open>text\<close> is not a string, the body has
  \<open>audioUrl: null\<close> and \<open>useNativeSpeech: true\<close>. A request whose \<open>text\<close> is absent or falsy
  gets status 400 with \<open>success: false\<close>.
\<close>

theorem speak_soft_success:
  "(truthy_opt text \<longrightarrow>
      status (speak env outcome text voice) = 200
      \<and> get_field (body (speak env outcome text voice)) (js ''success'') = Some (JBool True))
   \<and> (truthy_opt text
        \<and> ((\<not> truthy_str (OPENAI_API_KEY env) \<and> \<not> truthy_str (OPENROUTER_API_KEY env))
           \<or> tts_failed outcome \<or> \<not> is_string (the text)) \<longrightarrow>
      get_field (body (speak env outcome text voice)) (js ''audioUrl'') = Some JNull
      \<and> get_field (body (speak env outcome text voice)) (js ''useNativeSpeech'')
           = Some (JBool True))
   \<and> (\<not> truthy_opt text \<longrightarrow>
      status (speak env outcome text voice) = 400
      \<and> get_field (body (speak env outcome text voice)) (js ''success'') = Some (JBool False))"
proof -
  have e: "status \<lparr>status = 400, body = JObj [(js ''success'', JBool False),
                         (js ''error'', JStr (js ''Text is required''))]\<rparr> = 400"
    "get_field (JObj [(js ''success'', JBool False),
                      (js ''error'', JStr (js ''Text is required''))]) (js ''success'')
       = Some (JBool False)"
    by (simp_all add: js_def)
  have a: "get_field (JObj [(js ''success'', JBool True), (js ''audioUrl'', u),
                (js ''useNativeSpeech'', JBool False), (js ''provider'', p),
                (js ''voice'', v), (js ''size'', n)]) (js ''success'') = Some (JBool True)"
    for u p v n
    by (simp add: js_def)
  show ?thesis
    by (cases "the text"; cases outcome)
      (simp_all add: speak_def Let_def native_speech_fields tts_failed_def is_string_def e a
        del: get_field.simps)
qed

theorem speak_soft_success_witness:
  "truthy_opt (Some (JStr (js ''hola'')))
   \<and> status (speak env_none (TtsNotOk 401 (js ''denied'')) (Some (JStr (js ''hola''))) None) = 200
   \<and> get_field (body (speak env_none (TtsNotOk 401 (js ''denied'')) (Some (JStr (js ''hola''))) None))
        (js ''audioUrl'') = Some JNull
   \<and> \<not> truthy_opt (Some (JStr []))
   \<and> status (speak env_none (TtsNotOk 401 (js ''denied'')) (Some (JStr [])) None) = 400"
  using speak_soft_success [of "Some (JStr (js ''hola''))" env_none "TtsNotOk 401 (js ''denied'')" None]
    speak_soft_success [of "Some (JStr [])" env_none "TtsNotOk 401 (js ''denied'')" None]
  by (simp add: truthy_opt_def js_def env_none_def truthy_str_def)

text \<open>
  C9 as stated fails: a request without \<open>text\<close> gets the hard failure status 400.
\<close>

theorem speak_missing_text_counterexample:
  "status (speak env_none (TtsNotOk 401 (js ''denied'')) None None) = 400
   \<and> get_field (body (speak env_none (TtsNotOk 401 (js ''denied'')) None None)) (js ''success'')
        = Some (JBool False)"
  by (simp add: speak_def truthy_opt_def js_def)

end
